theory Spec2Isabelle
  imports
    Complex_Main
    "HOL-Library.Multiset"
    "HOL-Library.AList"
    "HOL-Library.Sublist"
    "HOL-Library.Char_ord"
    "HOL-Library.List_Lexorder"
begin

section \<open>Conventions of the embedding\<close>

text \<open>
  The development embeds \<^verbatim>\<open>mymuesli_analyzer.py\<close>.

  \<^item> A Python \<^verbatim>\<open>str\<close> is a \<open>string\<close>: the UTF-8 bytes of the text. The euro sign
    is the three bytes \<open>0xE2 0x82 0xAC\<close>. Whitespace and digits are the ASCII ones.
  \<^item> A JSON number that the code treats as a price or a share is a \<open>rat\<close>: the
    arithmetic of Python's binary floats is idealised as exact, so rounding, overflow to
    infinity and NaN from arithmetic are outside the model. What Python raises for a
    zero divisor is kept: \<open>py_truediv\<close>.
  \<^item> Every \<^verbatim>\<open>raise\<close> is a value \<open>Inl e\<close> of the sum type \<open>error + 'a\<close>.
  \<^item> Mutable process state (the class-level dictionaries and lists, the cache
    directory) is a record that each operation takes and returns; the state returned
    beside an error is the state at the moment of the raise.
\<close>

datatype error =
    ZeroDivisionError
  | ValueError
  | StopIteration
  | RequestError
  | JSONDecodeError
  | OSError

subsection \<open>Python built-ins used by the module\<close>

definition py_truediv :: "rat \<Rightarrow> rat \<Rightarrow> error + rat" where
  "py_truediv a b = (if b = 0 then Inl ZeroDivisionError else Inr (a / b))"

text \<open>\<^verbatim>\<open>int(x / 1000)\<close> for an integer \<open>x\<close>: \<^verbatim>\<open>int\<close> drops the fractional part,
  that is, it rounds toward zero.\<close>

definition py_int_truediv :: "int \<Rightarrow> int \<Rightarrow> int" where
  "py_int_truediv x d = (if 0 \<le> x then x div d else - ((- x) div d))"

text \<open>\<^verbatim>\<open>s.replace(old, new)\<close>: every non-overlapping occurrence, scanning from the
  left. For an empty \<open>old\<close> Python puts \<open>new\<close> before every character and at the end.\<close>

function replace :: "string \<Rightarrow> string \<Rightarrow> string \<Rightarrow> string" where
  "replace old new s =
     (if old = [] then new @ concat (map (\<lambda>c. c # new) s)
      else if s = [] then []
      else if prefix old s then new @ replace old new (drop (length old) s)
      else hd s # replace old new (tl s))"
  by pat_completeness auto
termination
  by (relation "measure (\<lambda>(old, new, s). length s)") (auto simp: neq_Nil_conv)

declare replace.simps [simp del]

text \<open>The ASCII characters for which \<^verbatim>\<open>str.isspace\<close> holds: tab, line feed, vertical
  tab, form feed, carriage return, the four separators \<open>0x1C\<close> to \<open>0x1F\<close>, and space.\<close>

definition isspace :: "char \<Rightarrow> bool" where
  "isspace c = (let n = (of_char c :: nat) in (9 \<le> n \<and> n \<le> 13) \<or> (28 \<le> n \<and> n \<le> 32))"

definition strip :: "string \<Rightarrow> string" where
  "strip s = rev (dropWhile isspace (rev (dropWhile isspace s)))"

definition isdigit :: "char \<Rightarrow> bool" where
  "isdigit c = (let n = (of_char c :: nat) in 48 \<le> n \<and> n \<le> 57)"

definition digit_value :: "char \<Rightarrow> nat" where
  "digit_value c = of_char c - 48"

definition digits_value :: "string \<Rightarrow> nat" where
  "digits_value ds = foldl (\<lambda>a c. 10 * a + digit_value c) 0 ds"

text \<open>\<^verbatim>\<open>needle in hay\<close> on strings: \<open>needle\<close> occurs as a contiguous piece.\<close>

fun contains :: "string \<Rightarrow> string \<Rightarrow> bool" where
  "contains needle [] = (needle = [])"
| "contains needle (c # cs) = (prefix needle (c # cs) \<or> contains needle cs)"

text \<open>\<^verbatim>\<open>str(n)\<close> for an integer, as an f-string prints it.\<close>

function str_nat :: "nat \<Rightarrow> string" where
  "str_nat n = (if n < 10 then [char_of (48 + n)] else str_nat (n div 10) @ [char_of (48 + n mod 10)])"
  by pat_completeness auto
termination
  by (relation "measure id") auto

declare str_nat.simps [simp del]

definition str_int :: "int \<Rightarrow> string" where
  "str_int i = (if i < 0 then CHR ''-'' # str_nat (nat (- i)) else str_nat (nat i))"

subsection \<open>\<^verbatim>\<open>float(str)\<close>\<close>

text \<open>
  The value of \<^verbatim>\<open>float\<close> on a string. A finite value is the exact rational the
  literal denotes.
\<close>

datatype pyfloat = Finite rat | Infinity bool | NaN

text \<open>Underscores may only stand between two digits; they are then dropped.\<close>

fun underscores_ok :: "char \<Rightarrow> string \<Rightarrow> bool" where
  "underscores_ok prev [] = (prev \<noteq> CHR ''_'')"
| "underscores_ok prev (c # cs) =
     ((if c = CHR ''_'' then isdigit prev else if prev = CHR ''_'' then isdigit c else True)
      \<and> underscores_ok c cs)"

definition lower :: "string \<Rightarrow> string" where
  "lower s = map (\<lambda>c. let n = (of_char c :: nat) in if 65 \<le> n \<and> n \<le> 90 then char_of (n + 32) else c) s"

definition split_sign :: "string \<Rightarrow> bool \<times> string" where
  "split_sign s =
     (case s of
        c # cs \<Rightarrow> if c = CHR ''-'' then (True, cs) else if c = CHR ''+'' then (False, cs) else (False, s)
      | [] \<Rightarrow> (False, s))"

text \<open>The exponent part, after the mantissa: nothing, or \<open>e\<close>/\<open>E\<close>, an optional
  sign and at least one digit. The result is the power of ten to scale by.\<close>

definition parse_exponent :: "string \<Rightarrow> int option" where
  "parse_exponent s =
     (case s of
        [] \<Rightarrow> Some 0
      | c # cs \<Rightarrow>
          if c = CHR ''e'' \<or> c = CHR ''E'' then
            (let (neg, ds) = split_sign cs in
             if ds \<noteq> [] \<and> list_all isdigit ds
             then Some (if neg then - int (digits_value ds) else int (digits_value ds))
             else None)
          else None)"

definition scale10 :: "rat \<Rightarrow> int \<Rightarrow> rat" where
  "scale10 m e = (if 0 \<le> e then m * 10 ^ nat e else m / 10 ^ nat (- e))"

text \<open>An unsigned decimal number: digits with an optional point, or a point followed
  by digits; then the exponent part.\<close>

definition parse_number :: "string \<Rightarrow> rat option" where
  "parse_number s =
     (let ip = takeWhile isdigit s; r1 = dropWhile isdigit s in
      case r1 of
        c # r2 \<Rightarrow>
          if c = CHR ''.'' then
            (let fp = takeWhile isdigit r2; r3 = dropWhile isdigit r2 in
             if ip = [] \<and> fp = [] then None
             else map_option (scale10 (of_nat (digits_value (ip @ fp)) / 10 ^ length fp))
                    (parse_exponent r3))
          else if ip = [] then None
          else map_option (scale10 (of_nat (digits_value ip))) (parse_exponent r1)
      | [] \<Rightarrow> if ip = [] then None else Some (of_nat (digits_value ip)))"

definition py_float :: "string \<Rightarrow> error + pyfloat" where
  "py_float raw =
     (let s = strip raw in
      if \<not> underscores_ok (CHR 0x00) s then Inl ValueError
      else
        (let (neg, body) = split_sign (filter (\<lambda>c. c \<noteq> CHR ''_'') s) in
         if lower body = ''inf'' \<or> lower body = ''infinity'' then Inr (Infinity neg)
         else if lower body = ''nan'' then Inr NaN
         else
           (case parse_number body of
              None \<Rightarrow> Inl ValueError
            | Some v \<Rightarrow> Inr (Finite (if neg then - v else v)))))"

section \<open>Offer\<close>

record offer =
  offer_id :: int
  name :: string
  availability :: bool
  availability_for_hotspot :: bool
  price :: rat
  original_price :: rat
  discount_percentage :: rat
  price_per_100g :: pyfloat
  description :: string

text \<open>One record of the pricing feed, as \<^verbatim>\<open>Offer.from_dict\<close> reads it. The two
  availability fields hold the truth value that \<^verbatim>\<open>bool(...)\<close> gives; a \<^verbatim>\<open>null\<close>
  marketing price is \<open>None\<close>.\<close>

record offer_dict =
  od_id :: int
  od_name :: string
  od_availability :: bool
  od_availableForHotspot :: bool
  od_price :: rat
  od_priceMarketing :: "rat option"
  od_priceQuotation :: string
  od_description :: string
  od_productArticleNumber :: string

text \<open>\<^verbatim>\<open>Offer.__init__\<close>: the discount is a plain division by the original price.\<close>

definition Offer_init ::
  "int \<Rightarrow> string \<Rightarrow> bool \<Rightarrow> bool \<Rightarrow> rat \<Rightarrow> rat \<Rightarrow> pyfloat \<Rightarrow> string \<Rightarrow> error + offer" where
  "Offer_init oid nm av avh p orig pp100 descr =
     (case py_truediv (orig - p) orig of
        Inl e \<Rightarrow> Inl e
      | Inr d \<Rightarrow>
          Inr \<lparr>offer_id = oid, name = nm, availability = av, availability_for_hotspot = avh,
               price = p, original_price = orig, discount_percentage = d,
               price_per_100g = pp100, description = descr\<rparr>)"

text \<open>The unit suffix \<^verbatim>\<open>' \<euro>/100g'\<close> that \<^verbatim>\<open>Offer.from_dict\<close> deletes.\<close>

definition unit_suffix :: string where
  "unit_suffix = '' '' @ [CHR 0xE2, CHR 0x82, CHR 0xAC] @ ''/100g''"

text \<open>The expression of \<^verbatim>\<open>Offer.from_dict\<close> for \<^verbatim>\<open>price_per_100g\<close>.\<close>

definition parse_price_per_100g :: "string \<Rightarrow> error + pyfloat" where
  "parse_price_per_100g q = py_float (strip (replace '','' ''.'' (replace unit_suffix [] q)))"

text \<open>\<^verbatim>\<open>Offer.from_dict\<close>: the keyword arguments are evaluated in the order written, so
  a quotation that is no number raises before the constructor divides.\<close>

definition Offer_from_dict :: "offer_dict \<Rightarrow> error + offer" where
  "Offer_from_dict d =
     (let orig = (case od_priceMarketing d of
                    Some m \<Rightarrow> if m \<noteq> 0 then m else od_price d
                  | None \<Rightarrow> od_price d)
      in case parse_price_per_100g (od_priceQuotation d) of
           Inl e \<Rightarrow> Inl e
         | Inr pp \<Rightarrow>
             Offer_init (od_id d) (od_name d) (od_availability d) (od_availableForHotspot d)
               (od_price d) orig pp (od_description d))"

subsection \<open>\<^verbatim>\<open>sorted\<close>, \<^verbatim>\<open>itertools.groupby\<close>, dictionaries\<close>

text \<open>
  \<^verbatim>\<open>sorted(xs, key=key, reverse=reverse)\<close>. The sort is stable; with
  \<^verbatim>\<open>reverse=True\<close> the list is reversed, sorted stably and reversed again, so that
  elements with equal keys keep their order.
\<close>

definition sorted_py :: "('a \<Rightarrow> 'k::linorder) \<Rightarrow> bool \<Rightarrow> 'a list \<Rightarrow> 'a list" where
  "sorted_py key reverse xs =
     (if reverse then rev (sort_key key (rev xs)) else sort_key key xs)"

text \<open>\<^verbatim>\<open>groupby(xs, key=key)\<close>, with every group read out at once: a new group starts
  whenever the key changes, so equal keys form one group only if they are adjacent.\<close>

function groupby :: "('a \<Rightarrow> 'k) \<Rightarrow> 'a list \<Rightarrow> ('k \<times> 'a list) list" where
  "groupby key [] = []"
| "groupby key (x # xs) =
     (key x, x # takeWhile (\<lambda>y. key y = key x) xs)
       # groupby key (dropWhile (\<lambda>y. key y = key x) xs)"
  by pat_completeness auto
termination
  by (relation "measure (\<lambda>(key, xs). length xs)")
     (auto simp: length_dropWhile_le less_Suc_eq_le)

text \<open>A \<^verbatim>\<open>dict\<close> whose order of insertion matters is an association list;
  \<^verbatim>\<open>d[k] = v\<close> is \<open>AList.update k v d\<close>: an existing key keeps its place.\<close>

section \<open>Ingredient and the ingredient store\<close>

record ingredient =
  ingredient_id :: string
  ingredient_name :: string
  subtitle :: "string option"
  ingredient_type :: string
  hints :: "string list"
  ingredient_description :: "string option"
  sub_ingredients :: "string list"

text \<open>
  A file of the cache directory. \<open>Json_dump r\<close> is the text that \<^verbatim>\<open>json.dump\<close>
  writes for the attributes of \<open>r\<close>, which \<^verbatim>\<open>json.load\<close> with the hook
  \<^verbatim>\<open>Ingredient.from_dict\<close> reads back as \<open>r\<close>; it is never of length 0.
  \<open>Other_content bs\<close> is any other content \<open>bs\<close>; the empty one is the zero-length
  file. Reading a file of other content is an error here: \<^verbatim>\<open>json.load\<close> raises on
  what is no JSON, and \<^verbatim>\<open>Ingredient.from_dict\<close> on an object with other keys. Content
  that is JSON but no object (which \<^verbatim>\<open>json.load\<close> would hand back as it is) is
  counted with them.
\<close>

datatype cache_file = Json_dump ingredient | Other_content string

definition st_size :: "cache_file \<Rightarrow> nat" where
  "st_size f = (case f of Json_dump r \<Rightarrow> 2 | Other_content bs \<Rightarrow> length bs)"

definition json_load :: "cache_file \<Rightarrow> error + ingredient" where
  "json_load f = (case f of Json_dump r \<Rightarrow> Inr r | Other_content bs \<Rightarrow> Inl JSONDecodeError)"

section \<open>The feeds and the ReadyMix record\<close>

record ingredient_ref =
  ir_id :: string
  ir_amount :: string
  ir_amountMilligram :: int

record product_dict =
  pd_id :: int
  pd_name :: string
  pd_url :: string
  pd_category :: int
  pd_type :: string
  pd_ingredients :: "ingredient_ref list"
  pd_nutrition :: string
  pd_flavour :: string
  pd_weight :: int
  pd_likes :: int
  pd_articleNumber :: string

record search_dict =
  sd_id :: int
  sd_type :: string
  sd_brand_key :: string
  sd_filter :: "(string \<times> string) list"
  sd_popularity :: rat

text \<open>One element of \<^verbatim>\<open>ReadyMix.ingredients\<close>: the dictionary with the keys
  \<^verbatim>\<open>'ingredient'\<close>, \<^verbatim>\<open>'amount'\<close> and \<^verbatim>\<open>'grams'\<close>.\<close>

record ingredient_entry =
  e_ingredient :: ingredient
  e_amount :: string
  e_grams :: int

record ready_mix =
  rm_name :: string
  url :: string
  category :: int
  product_type :: string
  ingredients :: "ingredient_entry list"
  ingredient_type_distribution :: "(string \<times> rat) list"
  nutrition :: string
  flavour :: string
  grams :: int
  offers :: "offer list"
  single_offer :: "offer option"
  likes :: int
  popularity :: rat
  filters :: "string list list"

section \<open>The world outside and the process state\<close>

text \<open>
  What writing the cache file of an ingredient does: \<^verbatim>\<open>open(..., 'w')\<close> and
  \<^verbatim>\<open>json.dump\<close> go through, or \<^verbatim>\<open>open\<close> raises and no file is made or changed,
  or \<^verbatim>\<open>json.dump\<close> raises after \<^verbatim>\<open>open\<close> has emptied the file and the bytes
  \<open>bs\<close> (none, or the beginning of the dump) have reached it.
\<close>

datatype write_outcome = Written | Open_raises | Dump_raises string

text \<open>
  What the process meets outside. \<open>ingredient_page w i\<close> is what
  \<^verbatim>\<open>Ingredient.from_web\<close> makes of the page of ingredient \<open>i\<close> (the fetch, the
  scraping and the look-up in \<^verbatim>\<open>ingredient_type_map\<close>), or the error it raises; the
  three feeds are the decoded JSON of the three API requests, or the error raised;
  \<open>cache_write w i\<close> is what the file system does when the cache file of ingredient
  \<open>i\<close> is written (in one run this happens at most once for an id).
\<close>

record world =
  ingredient_page :: "string \<Rightarrow> error + ingredient"
  api_products :: "error + product_dict list"
  api_search :: "error + search_dict list"
  api_offers :: "error + offer_dict list"
  cache_write :: "string \<Rightarrow> write_outcome"

datatype request = Get_ingredient string | Get_products | Get_search | Get_offers

text \<open>
  The state of one process: \<open>store\<close> is the class attribute \<^verbatim>\<open>IngredientDict.store\<close>,
  \<open>cache_dir\<close> the files of the cache directory by ingredient id, \<open>requests\<close> the
  HTTP requests made so far, in order. List objects live in \<open>heap\<close>, by address;
  \<open>all_elements\<close> is the address that the class attribute
  \<^verbatim>\<open>ReadyMixList.all_elements\<close> is bound to.
\<close>

record state =
  store :: "string \<rightharpoonup> ingredient"
  cache_dir :: "string \<rightharpoonup> cache_file"
  requests :: "request list"
  heap :: "nat \<Rightarrow> ready_mix list"
  all_elements :: nat

definition Ingredient_from_web :: "world \<Rightarrow> string \<Rightarrow> error + ingredient" where
  "Ingredient_from_web w i =
     (case ingredient_page w i of
        Inl e \<Rightarrow> Inl e
      | Inr r \<Rightarrow> Inr (r\<lparr>ingredient_id := i\<rparr>))"

text \<open>\<^verbatim>\<open>path.exists(f) and stat(f).st_size > 0\<close> for the cache file of an id.\<close>

definition cache_file_usable :: "state \<Rightarrow> string \<Rightarrow> bool" where
  "cache_file_usable s i = (case cache_dir s i of None \<Rightarrow> False | Some f \<Rightarrow> 0 < st_size f)"

text \<open>The \<^verbatim>\<open>with open(..., 'w')\<close> block of \<^verbatim>\<open>__getitem__\<close>, writing the dump of
  \<open>r\<close> to the cache file of \<open>i\<close>.\<close>

definition write_cache_file ::
  "world \<Rightarrow> string \<Rightarrow> ingredient \<Rightarrow> state \<Rightarrow> (error + unit) \<times> state" where
  "write_cache_file w i r s =
     (case cache_write w i of
        Written \<Rightarrow> (Inr (), s\<lparr>cache_dir := (cache_dir s)(i \<mapsto> Json_dump r)\<rparr>)
      | Open_raises \<Rightarrow> (Inl OSError, s)
      | Dump_raises bs \<Rightarrow> (Inl OSError, s\<lparr>cache_dir := (cache_dir s)(i \<mapsto> Other_content bs)\<rparr>))"

text \<open>\<^verbatim>\<open>IngredientDict.__getitem__\<close>. After a fetch the record is put into the store
  first and written to the cache file second; when the write raises, the record stays in
  the store.\<close>

definition IngredientDict_getitem ::
  "world \<Rightarrow> string \<Rightarrow> state \<Rightarrow> (error + ingredient) \<times> state" where
  "IngredientDict_getitem w i s =
     (if cache_file_usable s i then
        (case store s i of
           Some r \<Rightarrow> (Inr r, s)
         | None \<Rightarrow>
             (case json_load (the (cache_dir s i)) of
                Inl e \<Rightarrow> (Inl e, s)
              | Inr r \<Rightarrow> (Inr r, s\<lparr>store := (store s)(i \<mapsto> r)\<rparr>)))
      else
        (case store s i of
           Some r \<Rightarrow> (Inr r, s)
         | None \<Rightarrow>
             (let s1 = s\<lparr>requests := requests s @ [Get_ingredient i]\<rparr> in
              case Ingredient_from_web w i of
                Inl e \<Rightarrow> (Inl e, s1)
              | Inr r \<Rightarrow>
                  (let s2 = s1\<lparr>store := (store s1)(i \<mapsto> r)\<rparr> in
                   case write_cache_file w i r s2 of
                     (Inl e, s3) \<Rightarrow> (Inl e, s3)
                   | (Inr u, s3) \<Rightarrow> (Inr r, s3)))))"

section \<open>ReadyMix\<close>

text \<open>The list comprehension of \<^verbatim>\<open>ReadyMix.__init__\<close> over the ingredient references,
  in their order; the first error ends it.\<close>

fun ingredient_entries ::
  "world \<Rightarrow> ingredient_ref list \<Rightarrow> state \<Rightarrow> (error + ingredient_entry list) \<times> state" where
  "ingredient_entries w [] s = (Inr [], s)"
| "ingredient_entries w (r # rs) s =
     (case IngredientDict_getitem w (ir_id r) s of
        (Inl e, s1) \<Rightarrow> (Inl e, s1)
      | (Inr ing, s1) \<Rightarrow>
          (case ingredient_entries w rs s1 of
             (Inl e, s2) \<Rightarrow> (Inl e, s2)
           | (Inr es, s2) \<Rightarrow>
               (Inr (\<lparr>e_ingredient = ing, e_amount = ir_amount r,
                      e_grams = py_int_truediv (ir_amountMilligram r) 1000\<rparr> # es), s2)))"

definition entry_type :: "ingredient_entry \<Rightarrow> string" where
  "entry_type i = ingredient_type (e_ingredient i)"

definition sum_grams :: "ingredient_entry list \<Rightarrow> int" where
  "sum_grams es = sum_list (map e_grams es)"

text \<open>The dictionary comprehension of the distribution: one entry per group, each
  one a division of two sums of integers.\<close>

fun distribution_items ::
  "ingredient_entry list \<Rightarrow> (string \<times> ingredient_entry list) list \<Rightarrow> (string \<times> rat) list
     \<Rightarrow> error + (string \<times> rat) list" where
  "distribution_items ings [] d = Inr d"
| "distribution_items ings ((k, g) # gs) d =
     (case py_truediv (of_int (sum_grams g)) (of_int (sum_grams ings)) of
        Inl e \<Rightarrow> Inl e
      | Inr v \<Rightarrow> distribution_items ings gs (AList.update k v d))"

definition type_distribution :: "ingredient_entry list \<Rightarrow> error + (string \<times> rat) list" where
  "type_distribution ings =
     distribution_items ings (groupby entry_type (sorted_py entry_type False ings)) []"

fun offers_from_dicts :: "offer_dict list \<Rightarrow> error + offer list" where
  "offers_from_dicts [] = Inr []"
| "offers_from_dicts (d # ds) =
     (case Offer_from_dict d of
        Inl e \<Rightarrow> Inl e
      | Inr x \<Rightarrow> (case offers_from_dicts ds of Inl e \<Rightarrow> Inl e | Inr xs \<Rightarrow> Inr (x # xs)))"

definition MYMUESLI_ANALYZER_BASE_URL :: string where
  "MYMUESLI_ANALYZER_BASE_URL = ''https://www.mymuesli.com''"

text \<open>The test of \<^verbatim>\<open>single_offer\<close>: \<^verbatim>\<open>f"{self.grams}g" in o.name\<close>.\<close>

definition names_weight :: "int \<Rightarrow> offer \<Rightarrow> bool" where
  "names_weight g x = contains (str_int g @ ''g'') (name x)"

text \<open>\<^verbatim>\<open>ReadyMix.__init__\<close>, the attributes in the order they are assigned.\<close>

definition ReadyMix_init ::
  "world \<Rightarrow> product_dict \<Rightarrow> search_dict \<Rightarrow> offer_dict list \<Rightarrow> state
     \<Rightarrow> (error + ready_mix) \<times> state" where
  "ReadyMix_init w product_dict search_dict offer_dicts s =
     (case ingredient_entries w (pd_ingredients product_dict) s of
        (Inl e, s1) \<Rightarrow> (Inl e, s1)
      | (Inr es, s1) \<Rightarrow>
          (let ings = sorted_py e_grams True es in
           case type_distribution ings of
             Inl e \<Rightarrow> (Inl e, s1)
           | Inr distribution \<Rightarrow>
               (case offers_from_dicts offer_dicts of
                  Inl e \<Rightarrow> (Inl e, s1)
                | Inr os \<Rightarrow>
                    (let offs = sorted_py price False os in
                     (Inr \<lparr>rm_name = pd_name product_dict,
                           url = MYMUESLI_ANALYZER_BASE_URL @ pd_url product_dict,
                           category = pd_category product_dict,
                           product_type = pd_type product_dict,
                           ingredients = ings,
                           ingredient_type_distribution = distribution,
                           nutrition = pd_nutrition product_dict,
                           flavour = pd_flavour product_dict,
                           grams = pd_weight product_dict,
                           offers = offs,
                           single_offer = find (names_weight (pd_weight product_dict)) offs,
                           likes = pd_likes product_dict,
                           popularity = sd_popularity search_dict,
                           filters = [map snd (sd_filter search_dict)]\<rparr>, s1)))))"

section \<open>ReadyMixList\<close>

definition collection :: "state \<Rightarrow> ready_mix list" where
  "collection s = heap s (all_elements s)"

text \<open>\<^verbatim>\<open>lst.append(x)\<close> on the list object at address \<open>a\<close>: the object is changed in
  place.\<close>

definition list_append :: "nat \<Rightarrow> ready_mix \<Rightarrow> state \<Rightarrow> state" where
  "list_append a x s = s\<lparr>heap := (heap s)(a := heap s a @ [x])\<rparr>"

definition is_ready_mix_search_item :: "search_dict \<Rightarrow> bool" where
  "is_ready_mix_search_item sr =
     (sd_type sr = ''product'' \<and> sd_brand_key sr = ''mymuesli''
      \<and> ''is-ready-mix'' \<in> set (map fst (sd_filter sr)))"

text \<open>The \<^verbatim>\<open>for\<close> loop of \<^verbatim>\<open>get_all_ready_mixes\<close>. \<^verbatim>\<open>next\<close> on a filter that
  finds nothing raises \<^verbatim>\<open>StopIteration\<close>.\<close>

fun append_ready_mixes ::
  "world \<Rightarrow> product_dict list \<Rightarrow> offer_dict list \<Rightarrow> search_dict list \<Rightarrow> state
     \<Rightarrow> (error + unit) \<times> state" where
  "append_ready_mixes w mymuesli_products mymuesli_offers [] s = (Inr (), s)"
| "append_ready_mixes w mymuesli_products mymuesli_offers (rmsi # rest) s =
     (case find (\<lambda>product. pd_id product = sd_id rmsi) mymuesli_products of
        None \<Rightarrow> (Inl StopIteration, s)
      | Some rmpd \<Rightarrow>
          (case ReadyMix_init w rmpd rmsi
                  (filter (\<lambda>offer. od_productArticleNumber offer = pd_articleNumber rmpd)
                     mymuesli_offers) s of
             (Inl e, s1) \<Rightarrow> (Inl e, s1)
           | (Inr rm, s1) \<Rightarrow>
               append_ready_mixes w mymuesli_products mymuesli_offers rest
                 (list_append (all_elements s1) rm s1)))"

definition http_get :: "request \<Rightarrow> state \<Rightarrow> state" where
  "http_get r s = s\<lparr>requests := requests s @ [r]\<rparr>"

text \<open>\<^verbatim>\<open>ReadyMixList.get_all_ready_mixes\<close>.\<close>

definition get_all_ready_mixes :: "world \<Rightarrow> state \<Rightarrow> (error + unit) \<times> state" where
  "get_all_ready_mixes w s =
     (let s1 = http_get Get_products s in
      case api_products w of
        Inl e \<Rightarrow> (Inl e, s1)
      | Inr mymuesli_products \<Rightarrow>
          (let s2 = http_get Get_search s1 in
           case api_search w of
             Inl e \<Rightarrow> (Inl e, s2)
           | Inr mymuesli_search \<Rightarrow>
               (let s3 = http_get Get_offers s2 in
                case api_offers w of
                  Inl e \<Rightarrow> (Inl e, s3)
                | Inr mymuesli_offers \<Rightarrow>
                    append_ready_mixes w mymuesli_products mymuesli_offers
                      (filter is_ready_mix_search_item mymuesli_search) s3)))"

text \<open>\<^verbatim>\<open>ReadyMixList.__new__\<close>: the value of the constructor call is the address
  bound to \<^verbatim>\<open>cls.all_elements\<close>.\<close>

definition ReadyMixList_new :: "world \<Rightarrow> state \<Rightarrow> (error + nat) \<times> state" where
  "ReadyMixList_new w s =
     (if length (heap s (all_elements s)) = 0 then
        (case get_all_ready_mixes w s of
           (Inl e, s1) \<Rightarrow> (Inl e, s1)
         | (Inr u, s1) \<Rightarrow> (Inr (all_elements s1), s1))
      else (Inr (all_elements s), s))"

text \<open>The entry that the comprehension makes of one group: the key and the group's
  share of the grams of all ingredients.\<close>

definition share :: "ingredient_entry list \<Rightarrow> string \<times> ingredient_entry list \<Rightarrow> string \<times> rat" where
  "share ings kg = (fst kg, of_int (sum_grams (snd kg)) / of_int (sum_grams ings))"

section \<open>What a run of the loop assembles\<close>

text \<open>
  \<open>assembles w ps os entries s built s'\<close>: starting in state \<open>s\<close>, every search entry
  of \<open>entries\<close>, in order, has a catalogue record, the constructor returns a ReadyMix
  for it, and the ReadyMix is appended to the stored collection; \<open>built\<close> are these
  ReadyMixes and \<open>s'\<close> is the state after the last append.
\<close>

inductive assembles ::
  "world \<Rightarrow> product_dict list \<Rightarrow> offer_dict list \<Rightarrow> search_dict list \<Rightarrow> state
     \<Rightarrow> ready_mix list \<Rightarrow> state \<Rightarrow> bool"
  for w :: world and ps :: "product_dict list" and os :: "offer_dict list" where
  none: "assembles w ps os [] s [] s"
| one_more:
    "find (\<lambda>product. pd_id product = sd_id rmsi) ps = Some rmpd \<Longrightarrow>
     ReadyMix_init w rmpd rmsi
       (filter (\<lambda>offer. od_productArticleNumber offer = pd_articleNumber rmpd) os) s
       = (Inr rm, s1) \<Longrightarrow>
     assembles w ps os rest (list_append (all_elements s1) rm s1) built s' \<Longrightarrow>
     assembles w ps os (rmsi # rest) s (rm # built) s'"

text \<open>
  \<open>raises_at w ps os rmsi s e s'\<close>: in state \<open>s\<close> the search entry \<open>rmsi\<close> makes the
  loop raise \<open>e\<close> and leaves state \<open>s'\<close>: it has no catalogue record, or the
  constructor raises.
\<close>

definition raises_at ::
  "world \<Rightarrow> product_dict list \<Rightarrow> offer_dict list \<Rightarrow> search_dict \<Rightarrow> state \<Rightarrow> error
     \<Rightarrow> state \<Rightarrow> bool" where
  "raises_at w ps os rmsi s e s' =
     (case find (\<lambda>product. pd_id product = sd_id rmsi) ps of
        None \<Rightarrow> e = StopIteration \<and> s' = s
      | Some rmpd \<Rightarrow>
          ReadyMix_init w rmpd rmsi
            (filter (\<lambda>offer. od_productArticleNumber offer = pd_articleNumber rmpd) os) s
            = (Inl e, s'))"

text \<open>The state after the three feed requests of \<^verbatim>\<open>get_all_ready_mixes\<close>.\<close>

definition feeds_fetched :: "state \<Rightarrow> state" where
  "feeds_fetched s = http_get Get_offers (http_get Get_search (http_get Get_products s))"

section \<open>Process runs\<close>




section \<open>Sample data\<close>

text \<open>A small vendor site and catalogue, used to run the definitions on concrete
  inputs.\<close>

definition example_ingredient :: "string \<Rightarrow> string \<Rightarrow> ingredient" where
  "example_ingredient i t =
     \<lparr>ingredient_id = i, ingredient_name = i, subtitle = None, ingredient_type = t,
      hints = [], ingredient_description = None, sub_ingredients = []\<rparr>"

definition example_ref :: "string \<Rightarrow> int \<Rightarrow> ingredient_ref" where
  "example_ref i mg = \<lparr>ir_id = i, ir_amount = ''1'', ir_amountMilligram = mg\<rparr>"

definition example_product :: "int \<Rightarrow> ingredient_ref list \<Rightarrow> product_dict" where
  "example_product i refs =
     \<lparr>pd_id = i, pd_name = ''Produkt'', pd_url = ''/produkt'', pd_category = 181,
      pd_type = ''muesli'', pd_ingredients = refs, pd_nutrition = ''{}'',
      pd_flavour = ''sweet'', pd_weight = 500, pd_likes = 3, pd_articleNumber = ''A1''\<rparr>"

definition example_search :: "int \<Rightarrow> search_dict" where
  "example_search i =
     \<lparr>sd_id = i, sd_type = ''product'', sd_brand_key = ''mymuesli'',
      sd_filter = [(''is-ready-mix'', ''1'')], sd_popularity = 7\<rparr>"

definition example_offer_dict :: "int \<Rightarrow> string \<Rightarrow> rat \<Rightarrow> offer_dict" where
  "example_offer_dict i n p =
     \<lparr>od_id = i, od_name = n, od_availability = True, od_availableForHotspot = False,
      od_price = p, od_priceMarketing = None, od_priceQuotation = ''1,60'' @ unit_suffix,
      od_description = ''d'', od_productArticleNumber = ''A1''\<rparr>"

definition example_world :: "product_dict list \<Rightarrow> search_dict list \<Rightarrow> offer_dict list \<Rightarrow> world" where
  "example_world ps ss os =
     \<lparr>ingredient_page = (\<lambda>i.
         if i = ''x'' then Inr (example_ingredient i ''Getreide'')
         else if i = ''y'' then Inr (example_ingredient i ''Nuesse'')
         else if i = ''z'' then Inr (example_ingredient i ''Getreide'')
         else Inl RequestError),
      api_products = Inr ps, api_search = Inr ss, api_offers = Inr os,
      cache_write = (\<lambda>i. Written)\<rparr>"

definition initial_state :: state where
  "initial_state =
     \<lparr>store = Map.empty, cache_dir = Map.empty, requests = [], heap = (\<lambda>a. []),
      all_elements = 0\<rparr>"

definition zero_gram_product :: product_dict where
  "zero_gram_product = example_product 1 [example_ref ''x'' 500]"

definition negative_amount_product :: product_dict where
  "negative_amount_product = example_product 1 [example_ref ''x'' (- 1500)]"

definition three_ingredient_product :: product_dict where
  "three_ingredient_product =
     example_product 1 [example_ref ''z'' 30000, example_ref ''x'' 50000, example_ref ''y'' 50000]"

definition three_offer_dicts :: "offer_dict list" where
  "three_offer_dicts =
     [example_offer_dict 2 ''Produkt 500g'' 8, example_offer_dict 1 ''Produkt 2x500g'' 7,
      example_offer_dict 3 ''Produkt 250g'' 4]"

definition scraped_only :: world where
  "scraped_only = example_world [] [] []"


definition one_product_site :: world where
  "one_product_site =
     example_world [three_ingredient_product] [example_search 1] three_offer_dicts"

definition missing_product_site :: world where
  "missing_product_site =
     example_world [three_ingredient_product] [example_search 1, example_search 2] three_offer_dicts"

text \<open>The one-product site while the pricing feed cannot be fetched.\<close>

definition offers_feed_down :: world where
  "offers_feed_down = one_product_site\<lparr>api_offers := Inl RequestError\<rparr>"

section \<open>Properties of the built-ins\<close>




lemma Offer_init_error:
  "Offer_init oid nm av avh p orig pp d = Inl e \<Longrightarrow> e = ZeroDivisionError"
  by (auto simp: Offer_init_def py_truediv_def split: if_splits)

section \<open>Properties of sorting and grouping\<close>

lemma mset_sorted_py: "mset (sorted_py key r xs) = mset xs"
  by (simp add: sorted_py_def)

lemma length_sorted_py: "length (sorted_py key r xs) = length xs"
  by (simp add: sorted_py_def)

lemma set_sorted_py: "set (sorted_py key r xs) = set xs"
  by (simp add: sorted_py_def)

lemma sorted_py_stable:
  "filter (\<lambda>x. key x = k) (sorted_py key r xs) = filter (\<lambda>x. key x = k) xs"
proof (cases r)
  case True
  have "filter (\<lambda>x. key x = k) (rev (sort_key key (rev xs)))
          = rev (filter (\<lambda>x. key x = k) (sort_key key (rev xs)))"
    by (simp add: rev_filter)
  also have "\<dots> = rev (filter (\<lambda>x. key x = k) (rev xs))"
    by (simp only: sort_key_stable)
  also have "\<dots> = filter (\<lambda>x. key x = k) xs"
    by (simp add: rev_filter)
  finally show ?thesis using True by (simp add: sorted_py_def)
next
  case False
  then show ?thesis by (simp add: sorted_py_def sort_key_stable)
qed

lemma sorted_py_ascending: "sorted (map key (sorted_py key False xs))"
  by (simp add: sorted_py_def)

lemma sorted_py_descending:
  "sorted_wrt (\<lambda>a b. key b \<le> key a) (sorted_py key True xs)"
proof -
  have "sorted (map key (sort_key key (rev xs)))" by simp
  then have "sorted_wrt (\<lambda>a b. key a \<le> key b) (sort_key key (rev xs))"
    by (simp only: sorted_map)
  then show ?thesis
    by (simp add: sorted_py_def sorted_wrt_rev)
qed

lemma takeWhile_eq_filter_sorted:
  "sorted (map key (x # xs)) \<Longrightarrow>
     takeWhile (\<lambda>y. key y = key x) xs = filter (\<lambda>y. key y = key x) xs"
proof (induction xs)
  case Nil
  then show ?case by simp
next
  case (Cons y ys)
  show ?case
  proof (cases "key y = key x")
    case True
    with Cons show ?thesis by simp
  next
    case False
    with Cons.prems have "\<forall>z\<in>set ys. key z \<noteq> key x" by force
    with False show ?thesis by (simp add: filter_empty_conv)
  qed
qed

lemma dropWhile_eq_filter_sorted:
  "sorted (map key (x # xs)) \<Longrightarrow>
     dropWhile (\<lambda>y. key y = key x) xs = filter (\<lambda>y. key y \<noteq> key x) xs"
proof (induction xs)
  case Nil
  then show ?case by simp
next
  case (Cons y ys)
  show ?case
  proof (cases "key y = key x")
    case True
    with Cons show ?thesis by simp
  next
    case False
    with Cons.prems have "\<forall>z\<in>set ys. key z \<noteq> key x" by force
    with False show ?thesis by simp
  qed
qed

lemma groupby_concat: "concat (map snd (groupby key xs)) = xs"
  by (induction key xs rule: groupby.induct) simp_all


lemma groupby_keys: "fst ` set (groupby key xs) = key ` set xs"
proof (induction key xs rule: groupby.induct)
  case (1 key)
  then show ?case by simp
next
  case (2 key x xs)
  let ?P = "\<lambda>y. key y = key x"
  have "key ` set xs = key ` set (takeWhile ?P xs @ dropWhile ?P xs)"
    by simp
  also have "\<dots> = key ` set (takeWhile ?P xs) \<union> key ` set (dropWhile ?P xs)"
    by (simp only: set_append image_Un)
  finally have split: "key ` set xs = key ` set (takeWhile ?P xs) \<union> key ` set (dropWhile ?P xs)" .
  have "key ` set (takeWhile ?P xs) \<subseteq> {key x}"
    by (auto dest: set_takeWhileD)
  with split 2 show ?case by auto
qed

lemma groupby_sorted_group:
  "sorted (map key xs) \<Longrightarrow> (k, g) \<in> set (groupby key xs) \<Longrightarrow>
     g = filter (\<lambda>y. key y = k) xs"
proof (induction key xs rule: groupby.induct)
  case (1 key)
  then show ?case by simp
next
  case (2 key x xs)
  let ?rest = "dropWhile (\<lambda>y. key y = key x) xs"
  have dw: "?rest = filter (\<lambda>y. key y \<noteq> key x) xs"
    using "2.prems"(1) by (rule dropWhile_eq_filter_sorted)
  have tw: "takeWhile (\<lambda>y. key y = key x) xs = filter (\<lambda>y. key y = key x) xs"
    using "2.prems"(1) by (rule takeWhile_eq_filter_sorted)
  have srt: "sorted (map key ?rest)"
    using "2.prems"(1) by (simp add: dw sorted_filter)
  from "2.prems"(2) consider
    (head) "k = key x" "g = x # takeWhile (\<lambda>y. key y = key x) xs"
    | (tail) "(k, g) \<in> set (groupby key ?rest)"
    by auto
  then show ?case
  proof cases
    case head
    then show ?thesis by (simp add: tw)
  next
    case tail
    then have g: "g = filter (\<lambda>y. key y = k) ?rest"
      using "2.IH" srt by blast
    from tail have "k \<in> fst ` set (groupby key ?rest)" by force
    then have "k \<in> key ` set ?rest" by (simp only: groupby_keys)
    then have kx: "k \<noteq> key x" by (auto simp: dw)
    have "filter (\<lambda>y. key y = k) ?rest = filter (\<lambda>y. key y = k) xs"
      using kx by (auto simp: dw intro: filter_cong)
    with g kx show ?thesis by auto
  qed
qed

lemma groupby_sorted_distinct:
  "sorted (map key xs) \<Longrightarrow> distinct (map fst (groupby key xs))"
proof (induction key xs rule: groupby.induct)
  case (1 key)
  then show ?case by simp
next
  case (2 key x xs)
  let ?rest = "dropWhile (\<lambda>y. key y = key x) xs"
  have dw: "?rest = filter (\<lambda>y. key y \<noteq> key x) xs"
    using "2.prems" by (rule dropWhile_eq_filter_sorted)
  have srt: "sorted (map key ?rest)"
    using "2.prems" by (simp add: dw sorted_filter)
  have "key x \<notin> key ` set ?rest" by (subst dw) auto
  then have "key x \<notin> fst ` set (groupby key ?rest)" by (simp add: groupby_keys)
  with "2.IH" srt show ?case by simp
qed

section \<open>Properties of the type distribution\<close>

lemma update_fresh: "k \<notin> fst ` set d \<Longrightarrow> AList.update k v d = d @ [(k, v)]"
  by (induction d) auto

lemma distribution_items_nonzero:
  "sum_grams ings \<noteq> 0 \<Longrightarrow> distinct (map fst gs) \<Longrightarrow> fst ` set gs \<inter> fst ` set d = {} \<Longrightarrow>
     distribution_items ings gs d = Inr (d @ map (share ings) gs)"
proof (induction gs arbitrary: d)
  case Nil
  then show ?case by simp
next
  case (Cons kg gs)
  obtain k g where kg: "kg = (k, g)" by (cases kg)
  from Cons.prems(3) kg have fresh: "k \<notin> fst ` set d" by auto
  have upd: "AList.update k (of_int (sum_grams g) / of_int (sum_grams ings)) d
               = d @ [share ings kg]"
    using fresh by (simp add: update_fresh share_def kg)
  have disj: "fst ` set gs \<inter> fst ` set (d @ [share ings kg]) = {}"
    using Cons.prems(2,3) kg by (auto simp: share_def)
  have "distribution_items ings gs (d @ [share ings kg])
          = Inr ((d @ [share ings kg]) @ map (share ings) gs)"
    using Cons.IH [OF Cons.prems(1) _ disj] Cons.prems(2) by simp
  then show ?case
    using Cons.prems(1) by (simp add: kg py_truediv_def upd)
qed

lemma distribution_items_zero:
  "sum_grams ings = 0 \<Longrightarrow> gs \<noteq> [] \<Longrightarrow> distribution_items ings gs d = Inl ZeroDivisionError"
  by (cases gs) (auto simp: py_truediv_def)

lemma groupby_Nil_iff: "groupby key xs = [] \<longleftrightarrow> xs = []"
  by (cases xs) simp_all

lemma sum_grams_mset: "mset xs = mset ys \<Longrightarrow> sum_grams xs = sum_grams ys"
proof -
  assume "mset xs = mset ys"
  then have "mset (map e_grams xs) = mset (map e_grams ys)" by (metis mset_map)
  then have "sum_mset (mset (map e_grams xs)) = sum_mset (mset (map e_grams ys))" by simp
  then show ?thesis by (simp only: sum_grams_def sum_mset_sum_list)
qed

lemma sum_grams_concat: "sum_grams (concat gs) = sum_list (map sum_grams gs)"
  by (induction gs) (simp_all add: sum_grams_def)

lemma sum_list_shares:
  "sum_list (map (\<lambda>kg. (of_int (sum_grams (snd kg)) :: rat) / c) gs)
     = of_int (sum_list (map (\<lambda>kg. sum_grams (snd kg)) gs)) / c"
  by (induction gs) (simp_all add: add_divide_distrib)

lemma type_distribution_nonzero:
  assumes "sum_grams ings \<noteq> 0"
  shows "type_distribution ings
           = Inr (map (share ings) (groupby entry_type (sorted_py entry_type False ings)))"
proof -
  have "distinct (map fst (groupby entry_type (sorted_py entry_type False ings)))"
    by (rule groupby_sorted_distinct) (rule sorted_py_ascending)
  then show ?thesis
    using assms by (simp add: type_distribution_def distribution_items_nonzero)
qed

lemma type_distribution_zero:
  "sum_grams ings = 0 \<Longrightarrow> ings \<noteq> [] \<Longrightarrow> type_distribution ings = Inl ZeroDivisionError"
proof -
  assume z: "sum_grams ings = 0" and ne: "ings \<noteq> []"
  have "sorted_py entry_type False ings \<noteq> []"
    using ne length_sorted_py [of entry_type False ings] by (metis length_0_conv)
  then have "groupby entry_type (sorted_py entry_type False ings) \<noteq> []"
    by (simp add: groupby_Nil_iff)
  with z show ?thesis by (simp add: type_distribution_def distribution_items_zero)
qed

lemma type_distribution_Nil: "type_distribution [] = Inr []"
  by (simp add: type_distribution_def sorted_py_def)

lemma type_distribution_props:
  assumes G: "sum_grams ings \<noteq> 0" and d: "type_distribution ings = Inr d"
  shows "distinct (map fst d)"
    and "fst ` set d = entry_type ` set ings"
    and "c \<in> entry_type ` set ings \<Longrightarrow>
           map_of d c = Some (of_int (sum_grams (filter (\<lambda>i. entry_type i = c) ings))
                              / of_int (sum_grams ings))"
    and "sum_list (map snd d) = 1"
proof -
  let ?srt = "sorted_py entry_type False ings"
  let ?gs = "groupby entry_type ?srt"
  have deq: "d = map (share ings) ?gs"
    using type_distribution_nonzero [OF G] d by simp
  have fsts: "map fst d = map fst ?gs"
    by (simp add: deq share_def comp_def)
  have dist: "distinct (map fst ?gs)"
    by (rule groupby_sorted_distinct) (rule sorted_py_ascending)
  show dd: "distinct (map fst d)" using dist fsts by simp
  have "fst ` set d = fst ` set ?gs"
    using fsts by (metis list.set_map)
  also have "\<dots> = entry_type ` set ?srt" by (rule groupby_keys)
  also have "\<dots> = entry_type ` set ings" by (simp add: set_sorted_py)
  finally show keys: "fst ` set d = entry_type ` set ings" .
  show "map_of d c = Some (of_int (sum_grams (filter (\<lambda>i. entry_type i = c) ings))
                              / of_int (sum_grams ings))"
    if "c \<in> entry_type ` set ings"
  proof -
    from that keys obtain v where cv: "(c, v) \<in> set d" by force
    then obtain kg where kg: "kg \<in> set ?gs" "share ings kg = (c, v)"
      by (auto simp: deq)
    then have mem: "(c, snd kg) \<in> set ?gs"
      by (cases kg) (auto simp: share_def)
    have "snd kg = filter (\<lambda>i. entry_type i = c) ?srt"
      using groupby_sorted_group [OF sorted_py_ascending mem] .
    also have "\<dots> = filter (\<lambda>i. entry_type i = c) ings"
      by (rule sorted_py_stable)
    finally have "v = of_int (sum_grams (filter (\<lambda>i. entry_type i = c) ings))
                        / of_int (sum_grams ings)"
      using kg(2) by (simp add: share_def)
    with cv dd show ?thesis by simp
  qed
  have "sum_list (map snd d)
          = sum_list (map (\<lambda>kg. (of_int (sum_grams (snd kg)) :: rat) / of_int (sum_grams ings)) ?gs)"
    by (simp add: deq share_def comp_def)
  also have "\<dots> = of_int (sum_list (map (\<lambda>kg. sum_grams (snd kg)) ?gs)) / of_int (sum_grams ings)"
    by (rule sum_list_shares)
  also have "sum_list (map (\<lambda>kg. sum_grams (snd kg)) ?gs) = sum_grams (concat (map snd ?gs))"
    by (simp add: sum_grams_concat comp_def)
  also have "\<dots> = sum_grams ?srt" by (simp only: groupby_concat)
  also have "\<dots> = sum_grams ings" by (rule sum_grams_mset) (rule mset_sorted_py)
  finally show "sum_list (map snd d) = 1" using G by simp
qed

section \<open>Properties of the ReadyMix constructor\<close>

lemma write_cache_file_frame:
  "write_cache_file w i r s = (res, s') \<Longrightarrow>
     store s' = store s \<and> requests s' = requests s \<and> heap s' = heap s \<and>
     all_elements s' = all_elements s"
  by (auto simp: write_cache_file_def split: write_outcome.splits)

lemma getitem_store:
  "IngredientDict_getitem w i s = (Inr r, s') \<Longrightarrow> store s' i = Some r"
  by (auto simp: IngredientDict_getitem_def Let_def
        split: if_splits option.splits sum.splits prod.splits
        dest!: write_cache_file_frame)

lemma getitem_store_mono:
  "IngredientDict_getitem w i s = (res, s') \<Longrightarrow> store s j = Some x \<Longrightarrow> store s' j = Some x"
  by (auto simp: IngredientDict_getitem_def Let_def
        split: if_splits option.splits sum.splits prod.splits
        dest!: write_cache_file_frame)

lemma ingredient_entries_store_mono:
  "ingredient_entries w refs s = (res, s') \<Longrightarrow> store s j = Some x \<Longrightarrow> store s' j = Some x"
proof (induction refs arbitrary: s res s')
  case Nil
  then show ?case by simp
next
  case (Cons r rs)
  obtain g s1 where g: "IngredientDict_getitem w (ir_id r) s = (g, s1)" by force
  have s1: "store s1 j = Some x" using getitem_store_mono [OF g Cons.prems(2)] .
  show ?case
  proof (cases g)
    case (Inl e)
    with g Cons.prems(1) s1 show ?thesis by simp
  next
    case (Inr ing)
    obtain t s2 where t: "ingredient_entries w rs s1 = (t, s2)" by force
    have "store s2 j = Some x" using Cons.IH [OF t s1] .
    with g Inr t Cons.prems(1) show ?thesis by (cases t) auto
  qed
qed

lemma ingredient_entries_result:
  "ingredient_entries w refs s = (Inr es, s') \<Longrightarrow>
     map e_amount es = map ir_amount refs \<and>
     map e_grams es = map (\<lambda>r. py_int_truediv (ir_amountMilligram r) 1000) refs \<and>
     map (\<lambda>e. Some (e_ingredient e)) es = map (\<lambda>r. store s' (ir_id r)) refs"
proof (induction refs arbitrary: s es s')
  case Nil
  then show ?case by simp
next
  case (Cons r rs)
  obtain g s1 where g: "IngredientDict_getitem w (ir_id r) s = (g, s1)" by force
  obtain t s2 where t: "ingredient_entries w rs s1 = (t, s2)" by force
  from Cons.prems g t obtain ing es' where
    ing: "g = Inr ing" and es': "t = Inr es'" and s2: "s2 = s'" and
    es: "es = \<lparr>e_ingredient = ing, e_amount = ir_amount r,
               e_grams = py_int_truediv (ir_amountMilligram r) 1000\<rparr> # es'"
    by (cases g; cases t) auto
  have "store s1 (ir_id r) = Some ing" using g ing getitem_store by blast
  then have "store s' (ir_id r) = Some ing"
    using ingredient_entries_store_mono t s2 by blast
  moreover have "map e_amount es' = map ir_amount rs \<and>
     map e_grams es' = map (\<lambda>r. py_int_truediv (ir_amountMilligram r) 1000) rs \<and>
     map (\<lambda>e. Some (e_ingredient e)) es' = map (\<lambda>r. store s' (ir_id r)) rs"
    using Cons.IH t es' s2 by blast
  ultimately show ?case by (simp add: es)
qed

lemma offers_from_dicts_result:
  "offers_from_dicts ds = Inr xs \<Longrightarrow> map Inr xs = map Offer_from_dict ds"
proof (induction ds arbitrary: xs)
  case Nil
  then show ?case by simp
next
  case (Cons d ds)
  then show ?case by (auto split: sum.splits)
qed

lemma ReadyMix_init_Inr:
  assumes "ReadyMix_init w pd sd ods s = (Inr rm, s')"
  shows "\<exists>es xs. ingredient_entries w (pd_ingredients pd) s = (Inr es, s') \<and>
           ingredients rm = sorted_py e_grams True es \<and>
           type_distribution (ingredients rm) = Inr (ingredient_type_distribution rm) \<and>
           offers_from_dicts ods = Inr xs \<and>
           offers rm = sorted_py price False xs \<and>
           single_offer rm = find (names_weight (pd_weight pd)) (offers rm) \<and>
           grams rm = pd_weight pd"
  using assms
  by (auto simp: ReadyMix_init_def Let_def split: prod.splits sum.splits)

lemma ReadyMix_init_distribution_error:
  assumes "ingredient_entries w (pd_ingredients pd) s = (Inr es, s1)"
    and "type_distribution (sorted_py e_grams True es) = Inl e"
  shows "ReadyMix_init w pd sd ods s = (Inl e, s1)"
  using assms by (simp add: ReadyMix_init_def)

lemma py_int_truediv_floor:
  "0 \<le> x \<Longrightarrow> py_int_truediv x 1000 = \<lfloor>(of_int x :: rat) / 1000\<rfloor>"
proof -
  assume "0 \<le> x"
  have "\<lfloor>(of_int x :: rat) / of_int 1000\<rfloor> = x div 1000" by (rule floor_divide_of_int_eq)
  then show ?thesis using \<open>0 \<le> x\<close> by (simp add: py_int_truediv_def)
qed

section \<open>Properties of the ingredient store\<close>

lemma getitem_frame:
  "IngredientDict_getitem w i s = (res, s') \<Longrightarrow>
     heap s' = heap s \<and> all_elements s' = all_elements s"
  by (auto simp: IngredientDict_getitem_def Let_def
        split: if_splits option.splits sum.splits prod.splits
        dest!: write_cache_file_frame)







lemma ingredient_entries_frame:
  "ingredient_entries w refs s = (res, s') \<Longrightarrow>
     heap s' = heap s \<and> all_elements s' = all_elements s"
proof (induction refs arbitrary: s res s')
  case Nil
  then show ?case by simp
next
  case (Cons r rs)
  obtain g s1 where g: "IngredientDict_getitem w (ir_id r) s = (g, s1)" by force
  note f1 = getitem_frame [OF g]
  show ?case
  proof (cases g)
    case (Inl e)
    with g Cons.prems f1 show ?thesis by simp
  next
    case (Inr ing)
    obtain t s2 where t: "ingredient_entries w rs s1 = (t, s2)" by force
    note f2 = Cons.IH [OF t]
    with g Inr t Cons.prems f1 show ?thesis by (cases t) auto
  qed
qed

lemma ReadyMix_init_state:
  "ReadyMix_init w pd sd ods s = (res, s') \<Longrightarrow>
     \<exists>r. ingredient_entries w (pd_ingredients pd) s = (r, s')"
  by (auto simp: ReadyMix_init_def Let_def split: prod.splits sum.splits)


lemma ReadyMix_init_frame:
  "ReadyMix_init w pd sd ods s = (res, s') \<Longrightarrow>
     heap s' = heap s \<and> all_elements s' = all_elements s"
  using ReadyMix_init_state ingredient_entries_frame by blast







section \<open>Properties of the ReadyMixList constructor\<close>

lemma ReadyMix_init_popularity:
  "ReadyMix_init w pd sd ods s = (Inr rm, s') \<Longrightarrow> popularity rm = sd_popularity sd"
  by (auto simp: ReadyMix_init_def Let_def split: prod.splits sum.splits)

lemma collection_list_append:
  "collection (list_append (all_elements s) x s) = collection s @ [x]"
  by (simp add: collection_def list_append_def)

lemma append_ready_mixes_collection:
  "append_ready_mixes w ps os ss s = (res, s') \<Longrightarrow>
     \<exists>built. collection s' = collection s @ built \<and>
       all_elements s' = all_elements s \<and>
       (\<forall>c. c \<noteq> all_elements s \<longrightarrow> heap s' c = heap s c) \<and>
       (case res of
          Inr u \<Rightarrow> map popularity built = map sd_popularity ss
        | Inl e \<Rightarrow> length built < length ss \<and>
            map popularity built = take (length built) (map sd_popularity ss))"
proof (induction ss arbitrary: s res s')
  case Nil
  then show ?case by auto
next
  case (Cons rmsi rest)
  show ?case
  proof (cases "find (\<lambda>product. pd_id product = sd_id rmsi) ps")
    case None
    with Cons.prems show ?thesis by auto
  next
    case (Some rmpd)
    obtain g s1 where g: "ReadyMix_init w rmpd rmsi
        (filter (\<lambda>offer. od_productArticleNumber offer = pd_articleNumber rmpd) os) s = (g, s1)"
      by force
    note f1 = ReadyMix_init_frame [OF g]
    show ?thesis
    proof (cases g)
      case (Inl e)
      with Some g Cons.prems f1 show ?thesis by (auto simp: collection_def)
    next
      case (Inr rm)
      let ?s2 = "list_append (all_elements s1) rm s1"
      from Inr Some g Cons.prems
      have rec: "append_ready_mixes w ps os rest ?s2 = (res, s')" by simp
      from Cons.IH [OF rec] obtain built where
        c: "collection s' = collection ?s2 @ built" and
        a: "all_elements s' = all_elements ?s2" and
        h: "\<forall>c. c \<noteq> all_elements ?s2 \<longrightarrow> heap s' c = heap ?s2 c" and
        r: "(case res of
              Inr u \<Rightarrow> map popularity built = map sd_popularity rest
            | Inl e \<Rightarrow> length built < length rest \<and>
                map popularity built = take (length built) (map sd_popularity rest))"
        by blast
      have pop: "popularity rm = sd_popularity rmsi"
        using g Inr ReadyMix_init_popularity by blast
      have c2: "collection ?s2 = collection s @ [rm]"
        using f1 by (simp add: collection_def list_append_def)
      have c': "collection s' = collection s @ (rm # built)" using c c2 by simp
      have a': "all_elements s' = all_elements s" using a f1 by (simp add: list_append_def)
      have h': "\<forall>c. c \<noteq> all_elements s \<longrightarrow> heap s' c = heap s c"
        using h f1 by (simp add: list_append_def)
      have r': "(case res of
              Inr u \<Rightarrow> map popularity (rm # built) = map sd_popularity (rmsi # rest)
            | Inl e \<Rightarrow> length (rm # built) < length (rmsi # rest) \<and>
                map popularity (rm # built)
                  = take (length (rm # built)) (map sd_popularity (rmsi # rest)))"
        using r pop by (cases res) auto
      show ?thesis
        by (rule exI [of _ "rm # built"]) (intro conjI c' a' h' r')
    qed
  qed
qed

lemma http_get_frame:
  "collection (http_get q s) = collection s \<and> all_elements (http_get q s) = all_elements s \<and>
   heap (http_get q s) = heap s"
  by (simp add: http_get_def collection_def)

lemma get_all_ready_mixes_frame:
  assumes "get_all_ready_mixes w s = (res, s')"
  shows "all_elements s' = all_elements s \<and>
         (\<forall>c. c \<noteq> all_elements s \<longrightarrow> heap s' c = heap s c)"
proof (cases "\<exists>ps ss os. api_products w = Inr ps \<and> api_search w = Inr ss \<and> api_offers w = Inr os")
  case True
  then obtain ps ss os where
    f: "api_products w = Inr ps" "api_search w = Inr ss" "api_offers w = Inr os" by blast
  let ?s3 = "http_get Get_offers (http_get Get_search (http_get Get_products s))"
  have "append_ready_mixes w ps os (filter is_ready_mix_search_item ss) ?s3 = (res, s')"
    using assms f by (simp add: get_all_ready_mixes_def)
  from append_ready_mixes_collection [OF this] show ?thesis
    by (auto simp: http_get_frame)
next
  case False
  then show ?thesis
    using assms
    by (auto simp: get_all_ready_mixes_def Let_def http_get_frame split: sum.splits)
qed

lemma ReadyMixList_new_frame:
  assumes "ReadyMixList_new w s = (res, s')"
  shows "all_elements s' = all_elements s \<and>
         (\<forall>c. c \<noteq> all_elements s \<longrightarrow> heap s' c = heap s c)"
proof (cases "length (heap s (all_elements s)) = 0")
  case True
  obtain g s1 where g: "get_all_ready_mixes w s = (g, s1)" by force
  from get_all_ready_mixes_frame [OF g] g True assms show ?thesis
    by (cases g) (auto simp: ReadyMixList_new_def)
next
  case False
  with assms show ?thesis by (auto simp: ReadyMixList_new_def)
qed

lemma ReadyMixList_new_result:
  "ReadyMixList_new w s = (Inr a, s') \<Longrightarrow> a = all_elements s"
proof -
  assume r: "ReadyMixList_new w s = (Inr a, s')"
  have "a = all_elements s'"
    using r by (auto simp: ReadyMixList_new_def split: if_splits prod.splits sum.splits)
  with ReadyMixList_new_frame [OF r] show ?thesis by simp
qed

lemma ReadyMixList_new_nonempty:
  "collection s \<noteq> [] \<Longrightarrow> ReadyMixList_new w s = (Inr (all_elements s), s)"
  by (simp add: ReadyMixList_new_def collection_def)


lemma feeds_fetched_frame:
  "collection (feeds_fetched s) = collection s \<and>
   all_elements (feeds_fetched s) = all_elements s \<and> heap (feeds_fetched s) = heap s"
  by (simp add: feeds_fetched_def http_get_frame)

lemma get_all_ready_mixes_feeds:
  "api_products w = Inr ps \<Longrightarrow> api_search w = Inr ss \<Longrightarrow> api_offers w = Inr os \<Longrightarrow>
     get_all_ready_mixes w s
       = append_ready_mixes w ps os (filter is_ready_mix_search_item ss) (feeds_fetched s)"
  by (simp add: get_all_ready_mixes_def feeds_fetched_def)



lemma append_ready_mixes_assembles:
  "append_ready_mixes w ps os ss s = (res, s') \<Longrightarrow>
     \<exists>built. collection s' = collection s @ built \<and>
       (case res of
          Inr u \<Rightarrow> assembles w ps os ss s built s'
        | Inl e \<Rightarrow>
            (\<exists>pre bad post sm. ss = pre @ bad # post \<and>
               assembles w ps os pre s built sm \<and> raises_at w ps os bad sm e s'))"
proof (induction ss arbitrary: s res s')
  case Nil
  then have "res = Inr ()" "s' = s" by simp_all
  then show ?case by (auto intro: assembles.none)
next
  case (Cons rmsi rest)
  show ?case
  proof (cases "find (\<lambda>product. pd_id product = sd_id rmsi) ps")
    case None
    with Cons.prems have r: "res = Inl StopIteration" "s' = s" by simp_all
    have "raises_at w ps os rmsi s StopIteration s" by (simp add: raises_at_def None)
    then have "\<exists>pre bad post sm. rmsi # rest = pre @ bad # post \<and>
               assembles w ps os pre s [] sm \<and> raises_at w ps os bad sm StopIteration s"
      using assembles.none [of w ps os s] by (metis append_Nil)
    with r show ?thesis by simp
  next
    case (Some rmpd)
    obtain g s1 where g: "ReadyMix_init w rmpd rmsi
        (filter (\<lambda>offer. od_productArticleNumber offer = pd_articleNumber rmpd) os) s = (g, s1)"
      by force
    note f1 = ReadyMix_init_frame [OF g]
    show ?thesis
    proof (cases g)
      case (Inl e)
      with Some g Cons.prems have r: "res = Inl e" "s' = s1" by simp_all
      have "raises_at w ps os rmsi s e s1" using g Inl by (simp add: raises_at_def Some)
      then have "\<exists>pre bad post sm. rmsi # rest = pre @ bad # post \<and>
               assembles w ps os pre s [] sm \<and> raises_at w ps os bad sm e s1"
        using assembles.none [of w ps os s] by (metis append_Nil)
      moreover have "collection s1 = collection s" using f1 by (simp add: collection_def)
      ultimately show ?thesis using r by simp
    next
      case (Inr rm)
      let ?s2 = "list_append (all_elements s1) rm s1"
      from Inr Some g Cons.prems
      have rec: "append_ready_mixes w ps os rest ?s2 = (res, s')" by simp
      from Cons.IH [OF rec] obtain built where
        c: "collection s' = collection ?s2 @ built" and
        r: "(case res of
              Inr u \<Rightarrow> assembles w ps os rest ?s2 built s'
            | Inl e \<Rightarrow>
                (\<exists>pre bad post sm. rest = pre @ bad # post \<and>
                   assembles w ps os pre ?s2 built sm \<and> raises_at w ps os bad sm e s'))"
        by blast
      have i: "ReadyMix_init w rmpd rmsi
        (filter (\<lambda>offer. od_productArticleNumber offer = pd_articleNumber rmpd) os) s = (Inr rm, s1)"
        using g Inr by simp
      have c2: "collection ?s2 = collection s @ [rm]"
        using f1 by (simp add: collection_def list_append_def)
      have c': "collection s' = collection s @ (rm # built)" using c c2 by simp
      have r': "(case res of
              Inr u \<Rightarrow> assembles w ps os (rmsi # rest) s (rm # built) s'
            | Inl e \<Rightarrow>
                (\<exists>pre bad post sm. rmsi # rest = pre @ bad # post \<and>
                   assembles w ps os pre s (rm # built) sm \<and> raises_at w ps os bad sm e s'))"
      proof (cases res)
        case (Inr u)
        with r have "assembles w ps os rest ?s2 built s'" by simp
        from assembles.one_more [OF Some i this] Inr show ?thesis by simp
      next
        case (Inl e)
        with r obtain pre bad post sm where
          sp: "rest = pre @ bad # post" and
          as: "assembles w ps os pre ?s2 built sm" and
          ra: "raises_at w ps os bad sm e s'"
          by auto
        have sp': "rmsi # rest = (rmsi # pre) @ bad # post" using sp by simp
        have as': "assembles w ps os (rmsi # pre) s (rm # built) sm"
          using assembles.one_more [OF Some i as] .
        have "\<exists>pre' bad' post' sm'. rmsi # rest = pre' @ bad' # post' \<and>
                assembles w ps os pre' s (rm # built) sm' \<and> raises_at w ps os bad' sm' e s'"
          using sp' as' ra by blast
        then show ?thesis using Inl by simp
      qed
      show ?thesis
        by (rule exI [of _ "rm # built"]) (intro conjI c' r')
    qed
  qed
qed

section \<open>The discount of an offer\<close>

text \<open>
  Against claim C1 as stated: with an original price of 0 the constructor does not
  give a discount of 0, it raises \<^verbatim>\<open>ZeroDivisionError\<close>.
\<close>

theorem Offer_init_zero_original_price_raises:
  "Offer_init 1 ''Probe'' True False 0 0 (Finite 2) ''d'' = Inl ZeroDivisionError"
  by (simp add: Offer_init_def py_truediv_def)

text \<open>
  Claim C1, amended: constructing an Offer whose original price is 0 raises
  \<^verbatim>\<open>ZeroDivisionError\<close>; when the original price \<open>orig\<close> is not 0 and the current
  price is \<open>p\<close>, the Offer is built and its discount fraction is \<open>(orig - p) / orig\<close>
  (original 10, current 8 gives 1/5).
\<close>

theorem Offer_init_discount:
  "(orig = 0 \<longrightarrow> Offer_init oid nm av avh p orig pp d = Inl ZeroDivisionError) \<and>
   (orig \<noteq> 0 \<longrightarrow> (\<exists>r. Offer_init oid nm av avh p orig pp d = Inr r \<and>
        discount_percentage r = (orig - p) / orig \<and> price r = p \<and> original_price r = orig))"
  by (simp add: Offer_init_def py_truediv_def)

theorem Offer_init_discount_witness:
  "(\<exists>r. Offer_init 1 ''Probe'' True False 8 10 (Finite 2) ''d'' = Inr r \<and>
        discount_percentage r = 1 / 5 \<and> price r = 8 \<and> original_price r = 10) \<and>
   Offer_init 1 ''Probe'' True False 0 0 (Finite 2) ''d'' = Inl ZeroDivisionError"
  using Offer_init_discount [of 10 1 "''Probe''" True False 8 "Finite 2" "''d''"]
    Offer_init_discount [of 0 1 "''Probe''" True False 0 "Finite 2" "''d''"]
  by simp

section \<open>Parsing the price per 100 g\<close>




section \<open>The type distribution of a ReadyMix\<close>

text \<open>
  Against claim C2 as stated: one ingredient of 500 milligrams gives 0 grams, the
  ingredient list sums to 0 grams, and the constructor raises
  \<^verbatim>\<open>ZeroDivisionError\<close>.
\<close>

theorem ReadyMix_zero_grams_raises:
  "map_sum id sum_grams
     (fst (ingredient_entries scraped_only (pd_ingredients zero_gram_product) initial_state))
     = Inr 0 \<and>
   fst (ReadyMix_init scraped_only zero_gram_product (example_search 1) [] initial_state)
     = Inl ZeroDivisionError"
  by code_simp

text \<open>
  Claim C2, amended: for a ReadyMix whose ingredient list sums to 0 grams, the
  constructor gives the empty distribution when the list is empty, and raises
  \<^verbatim>\<open>ZeroDivisionError\<close> when the list is not empty.
\<close>

theorem ReadyMix_init_zero_grams:
  assumes "ingredient_entries w (pd_ingredients pd) s = (Inr es, s1)"
    and "sum_grams es = 0"
  shows "(es \<noteq> [] \<longrightarrow> ReadyMix_init w pd sd ods s = (Inl ZeroDivisionError, s1)) \<and>
         (es = [] \<longrightarrow> type_distribution (sorted_py e_grams True es) = Inr [] \<and>
            (\<forall>rm s'. ReadyMix_init w pd sd ods s = (Inr rm, s') \<longrightarrow>
               ingredient_type_distribution rm = []))"
proof (intro conjI impI allI)
  assume ne: "es \<noteq> []"
  let ?ings = "sorted_py e_grams True es"
  have "sum_grams ?ings = 0"
    using assms(2) sum_grams_mset [OF mset_sorted_py, of e_grams True es] by simp
  moreover have "?ings \<noteq> []"
    using ne length_sorted_py [of e_grams True es] by (metis length_0_conv)
  ultimately have "type_distribution ?ings = Inl ZeroDivisionError"
    by (rule type_distribution_zero)
  with assms(1) show "ReadyMix_init w pd sd ods s = (Inl ZeroDivisionError, s1)"
    by (rule ReadyMix_init_distribution_error)
next
  assume "es = []"
  then show "type_distribution (sorted_py e_grams True es) = Inr []"
    by (simp add: sorted_py_def type_distribution_Nil)
next
  fix rm s'
  assume e: "es = []" and r: "ReadyMix_init w pd sd ods s = (Inr rm, s')"
  from ReadyMix_init_Inr [OF r] assms(1) e
  have "ingredients rm = []" "type_distribution (ingredients rm) = Inr (ingredient_type_distribution rm)"
    by (auto simp: sorted_py_def)
  then show "ingredient_type_distribution rm = []"
    by (simp add: type_distribution_Nil)
qed

theorem ReadyMix_init_zero_grams_witness:
  "fst (ReadyMix_init scraped_only zero_gram_product (example_search 1) [] initial_state)
     = Inl ZeroDivisionError \<and>
   type_distribution (sorted_py e_grams True []) = Inr [] \<and>
   map_sum id ingredient_type_distribution
     (fst (ReadyMix_init scraped_only (example_product 1 []) (example_search 1) [] initial_state))
     = Inr []"
proof -
  let ?r = "ingredient_entries scraped_only (pd_ingredients zero_gram_product) initial_state"
  have f: "fst ?r = Inr [\<lparr>e_ingredient = example_ingredient ''x'' ''Getreide'', e_amount = ''1'',
                          e_grams = 0\<rparr>]"
    by code_simp
  then have a: "?r = (Inr [\<lparr>e_ingredient = example_ingredient ''x'' ''Getreide'', e_amount = ''1'',
                          e_grams = 0\<rparr>], snd ?r)"
    by (metis prod.collapse)
  have z: "sum_grams [\<lparr>e_ingredient = example_ingredient ''x'' ''Getreide'', e_amount = ''1'',
                          e_grams = 0\<rparr>] = 0"
    by (simp add: sum_grams_def)
  have b: "ingredient_entries scraped_only (pd_ingredients (example_product 1 [])) initial_state
             = (Inr [], initial_state)"
    by (simp add: example_product_def)
  have z': "sum_grams [] = 0" by (simp add: sum_grams_def)
  have c: "map_sum id ingredient_type_distribution
     (fst (ReadyMix_init scraped_only (example_product 1 []) (example_search 1) [] initial_state))
     = Inr []"
    by code_simp
  from ReadyMix_init_zero_grams [OF a z, of "example_search 1" "[]"]
    ReadyMix_init_zero_grams [OF b z', of "example_search 1" "[]"] c
  show ?thesis by simp
qed

text \<open>
  Claim C4: for a ReadyMix whose ingredients sum to more than 0 grams, the
  distribution has exactly one entry for each ingredient type present, the entry of a
  type is the grams of all ingredients of that type (wherever they stand in the list)
  divided by the total grams, and the values sum to 1. The shares are exact rationals
  here; Python's floats round each quotient.
\<close>

theorem ReadyMix_type_distribution:
  assumes "ReadyMix_init w pd sd ods s = (Inr rm, s')"
    and "0 < sum_grams (ingredients rm)"
  shows "distinct (map fst (ingredient_type_distribution rm)) \<and>
         fst ` set (ingredient_type_distribution rm) = entry_type ` set (ingredients rm) \<and>
         (\<forall>c \<in> entry_type ` set (ingredients rm).
            map_of (ingredient_type_distribution rm) c
              = Some (of_int (sum_grams (filter (\<lambda>i. entry_type i = c) (ingredients rm)))
                      / of_int (sum_grams (ingredients rm)))) \<and>
         sum_list (map snd (ingredient_type_distribution rm)) = 1"
proof -
  have G: "sum_grams (ingredients rm) \<noteq> 0" using assms(2) by simp
  from ReadyMix_init_Inr [OF assms(1)]
  have d: "type_distribution (ingredients rm) = Inr (ingredient_type_distribution rm)"
    by blast
  show ?thesis
    using type_distribution_props [OF G d] by blast
qed

theorem ReadyMix_type_distribution_witness:
  "ingredient_type_distribution
     (projr (fst (ReadyMix_init scraped_only three_ingredient_product (example_search 1) []
                    initial_state)))
     = [(''Getreide'', 8 / 13), (''Nuesse'', 5 / 13)] \<and>
   sum_list (map snd (ingredient_type_distribution
     (projr (fst (ReadyMix_init scraped_only three_ingredient_product (example_search 1) []
                    initial_state))))) = 1"
proof -
  let ?X = "ReadyMix_init scraped_only three_ingredient_product (example_search 1) [] initial_state"
  have "fst ?X = Inr (projr (fst ?X))" by code_simp
  then have a: "?X = (Inr (projr (fst ?X)), snd ?X)" by (metis prod.collapse)
  have b: "0 < sum_grams (ingredients (projr (fst ?X)))" by code_simp
  have c: "ingredient_type_distribution (projr (fst ?X))
             = [(''Getreide'', 8 / 13), (''Nuesse'', 5 / 13)]"
    by code_simp
  from ReadyMix_type_distribution [OF a b] c show ?thesis by blast
qed

section \<open>The ingredient list of a ReadyMix\<close>

text \<open>
  Against claim C5 as stated: \<^verbatim>\<open>int(x / 1000)\<close> rounds toward zero, so an amount
  of -1500 milligrams gives -1 gram, while the floor of -1.5 is -2.
\<close>

theorem ReadyMix_grams_negative_amount:
  "map_sum id (\<lambda>rm. map e_grams (ingredients rm))
     (fst (ReadyMix_init scraped_only negative_amount_product (example_search 1) []
             initial_state)) = Inr [- 1] \<and>
   \<lfloor>(- 1500 :: rat) / 1000\<rfloor> = - 2"
proof
  show "map_sum id (\<lambda>rm. map e_grams (ingredients rm))
     (fst (ReadyMix_init scraped_only negative_amount_product (example_search 1) []
             initial_state)) = Inr [- 1]"
    by code_simp
  have "\<lfloor>(of_int (- 1500) :: rat) / of_int 1000\<rfloor> = (- 1500) div 1000"
    by (rule floor_divide_of_int_eq)
  then show "\<lfloor>(- 1500 :: rat) / 1000\<rfloor> = - 2" by simp
qed

text \<open>
  Claim C5, amended: the ingredient list holds one entry per ingredient reference of the
  catalogue record, with the resolved ingredient, the stated amount and
  grams = \<^verbatim>\<open>int(amountMilligram / 1000)\<close>, the quotient rounded toward zero, which is
  the floor for every amount that is not negative. The list is sorted by grams,
  descending, and entries with equal grams keep their relative order.
\<close>

theorem ReadyMix_ingredients_sorted:
  assumes "ReadyMix_init w pd sd ods s = (Inr rm, s')"
  shows "\<exists>es. map e_amount es = map ir_amount (pd_ingredients pd) \<and>
           map e_grams es
             = map (\<lambda>r. py_int_truediv (ir_amountMilligram r) 1000) (pd_ingredients pd) \<and>
           map (\<lambda>e. Some (e_ingredient e)) es
             = map (\<lambda>r. store s' (ir_id r)) (pd_ingredients pd) \<and>
           (\<forall>r \<in> set (pd_ingredients pd). 0 \<le> ir_amountMilligram r \<longrightarrow>
              py_int_truediv (ir_amountMilligram r) 1000
                = \<lfloor>(of_int (ir_amountMilligram r) :: rat) / 1000\<rfloor>) \<and>
           mset (ingredients rm) = mset es \<and>
           sorted_wrt (\<lambda>a b. e_grams b \<le> e_grams a) (ingredients rm) \<and>
           (\<forall>g. filter (\<lambda>e. e_grams e = g) (ingredients rm) = filter (\<lambda>e. e_grams e = g) es)"
proof -
  from ReadyMix_init_Inr [OF assms] obtain es where
    es: "ingredient_entries w (pd_ingredients pd) s = (Inr es, s')" and
    srt: "ingredients rm = sorted_py e_grams True es"
    by blast
  note res = ingredient_entries_result [OF es]
  have fl: "\<forall>r \<in> set (pd_ingredients pd). 0 \<le> ir_amountMilligram r \<longrightarrow>
              py_int_truediv (ir_amountMilligram r) 1000
                = \<lfloor>(of_int (ir_amountMilligram r) :: rat) / 1000\<rfloor>"
    by (simp add: py_int_truediv_floor)
  have m: "mset (ingredients rm) = mset es" by (simp add: srt mset_sorted_py)
  have d: "sorted_wrt (\<lambda>a b. e_grams b \<le> e_grams a) (ingredients rm)"
    by (simp only: srt sorted_py_descending)
  have st: "\<forall>g. filter (\<lambda>e. e_grams e = g) (ingredients rm) = filter (\<lambda>e. e_grams e = g) es"
    by (simp only: srt sorted_py_stable) simp
  from res fl m d st show ?thesis by blast
qed

theorem ReadyMix_ingredients_sorted_witness:
  "map (\<lambda>e. (ingredient_id (e_ingredient e), e_grams e))
     (ingredients (projr (fst (ReadyMix_init scraped_only three_ingredient_product
                                 (example_search 1) [] initial_state))))
     = [(''x'', 50), (''y'', 50), (''z'', 30)] \<and>
   sorted_wrt (\<lambda>a b. e_grams b \<le> e_grams a)
     (ingredients (projr (fst (ReadyMix_init scraped_only three_ingredient_product
                                 (example_search 1) [] initial_state))))"
proof -
  let ?X = "ReadyMix_init scraped_only three_ingredient_product (example_search 1) [] initial_state"
  have "fst ?X = Inr (projr (fst ?X))" by code_simp
  then have a: "?X = (Inr (projr (fst ?X)), snd ?X)" by (metis prod.collapse)
  have c: "map (\<lambda>e. (ingredient_id (e_ingredient e), e_grams e)) (ingredients (projr (fst ?X)))
             = [(''x'', 50), (''y'', 50), (''z'', 30)]"
    by code_simp
  from ReadyMix_ingredients_sorted [OF a] c show ?thesis by blast
qed

section \<open>The offers of a ReadyMix\<close>

text \<open>
  Claim C9: the offers of a ReadyMix are the Offers made of all pricing records passed
  in, sorted by price, ascending; \<^verbatim>\<open>single_offer\<close> is the first of them, in that
  order, whose name contains the weight in grams followed by \<^verbatim>\<open>g\<close>, and
  \<^verbatim>\<open>None\<close> when there is none.
\<close>

theorem ReadyMix_offers:
  assumes "ReadyMix_init w pd sd ods s = (Inr rm, s')"
  shows "\<exists>xs. map Inr xs = map Offer_from_dict ods \<and>
           mset (offers rm) = mset xs \<and>
           sorted (map price (offers rm)) \<and>
           (single_offer rm = None \<longleftrightarrow>
              (\<forall>x \<in> set (offers rm). \<not> contains (str_int (pd_weight pd) @ ''g'') (name x))) \<and>
           (\<forall>x. single_offer rm = Some x \<longleftrightarrow>
              (\<exists>i < length (offers rm). offers rm ! i = x \<and>
                 contains (str_int (pd_weight pd) @ ''g'') (name x) \<and>
                 (\<forall>j < i. \<not> contains (str_int (pd_weight pd) @ ''g'') (name (offers rm ! j)))))"
proof -
  from ReadyMix_init_Inr [OF assms] obtain xs where
    xs: "offers_from_dicts ods = Inr xs" and
    srt: "offers rm = sorted_py price False xs" and
    so: "single_offer rm = find (names_weight (pd_weight pd)) (offers rm)"
    by blast
  have p: "map Inr xs = map Offer_from_dict ods" using xs by (rule offers_from_dicts_result)
  have m: "mset (offers rm) = mset xs" by (simp add: srt mset_sorted_py)
  have a: "sorted (map price (offers rm))" by (simp only: srt sorted_py_ascending)
  have n: "single_offer rm = None \<longleftrightarrow>
              (\<forall>x \<in> set (offers rm). \<not> contains (str_int (pd_weight pd) @ ''g'') (name x))"
    by (auto simp: so find_None_iff names_weight_def)
  have f: "\<forall>x. single_offer rm = Some x \<longleftrightarrow>
              (\<exists>i < length (offers rm). offers rm ! i = x \<and>
                 contains (str_int (pd_weight pd) @ ''g'') (name x) \<and>
                 (\<forall>j < i. \<not> contains (str_int (pd_weight pd) @ ''g'') (name (offers rm ! j))))"
    by (auto simp: so find_Some_iff names_weight_def)
  show ?thesis
    by (rule exI [of _ xs]) (intro conjI p m a n f)
qed

theorem ReadyMix_offers_witness:
  "map (\<lambda>x. (name x, price x))
     (offers (projr (fst (ReadyMix_init scraped_only three_ingredient_product
                            (example_search 1) three_offer_dicts initial_state))))
     = [(''Produkt 250g'', 4), (''Produkt 2x500g'', 7), (''Produkt 500g'', 8)] \<and>
   map_option name
     (single_offer (projr (fst (ReadyMix_init scraped_only three_ingredient_product
                            (example_search 1) three_offer_dicts initial_state))))
     = Some ''Produkt 2x500g'' \<and>
   sorted (map price
     (offers (projr (fst (ReadyMix_init scraped_only three_ingredient_product
                            (example_search 1) three_offer_dicts initial_state)))))"
proof -
  let ?X = "ReadyMix_init scraped_only three_ingredient_product (example_search 1)
              three_offer_dicts initial_state"
  have "fst ?X = Inr (projr (fst ?X))" by code_simp
  then have a: "?X = (Inr (projr (fst ?X)), snd ?X)" by (metis prod.collapse)
  have c: "map (\<lambda>x. (name x, price x)) (offers (projr (fst ?X)))
     = [(''Produkt 250g'', 4), (''Produkt 2x500g'', 7), (''Produkt 500g'', 8)]"
    by code_simp
  have d: "map_option name (single_offer (projr (fst ?X))) = Some ''Produkt 2x500g''"
    by code_simp
  from ReadyMix_offers [OF a] c d show ?thesis by blast
qed

section \<open>Resolving an ingredient twice\<close>




section \<open>Building the collection\<close>




text \<open>
  Against claim C8 as stated: with two ready-mix search entries of which the second has
  no catalogue record, the run raises \<^verbatim>\<open>StopIteration\<close> and the collection, empty
  before, holds the first ReadyMix afterwards.
\<close>

theorem get_all_ready_mixes_keeps_partial_result:
  "fst (get_all_ready_mixes missing_product_site initial_state) = Inl StopIteration \<and>
   collection initial_state = [] \<and>
   map rm_name (collection (snd (get_all_ready_mixes missing_product_site initial_state)))
     = [''Produkt'']"
  by code_simp

text \<open>
  Claim C8, amended: a run of \<^verbatim>\<open>get_all_ready_mixes\<close> only appends to the stored
  collection. When one of the three feeds cannot be fetched, that error is the result
  and nothing is appended. When the loop raises at a surviving search entry (no
  catalogue record, or the constructor raises), that error is the result, and the
  ReadyMixes of all surviving entries before it, assembled in the order of the search
  feed, have been appended and stay. Without an error the ReadyMixes of all surviving
  entries are appended, in that order.
\<close>

theorem get_all_ready_mixes_outcome:
  assumes "get_all_ready_mixes w s = (res, s')"
  shows "(\<forall>e. api_products w = Inl e \<longrightarrow> res = Inl e \<and> collection s' = collection s) \<and>
         (\<forall>ps e. api_products w = Inr ps \<longrightarrow> api_search w = Inl e \<longrightarrow>
            res = Inl e \<and> collection s' = collection s) \<and>
         (\<forall>ps ss e. api_products w = Inr ps \<longrightarrow> api_search w = Inr ss \<longrightarrow>
            api_offers w = Inl e \<longrightarrow> res = Inl e \<and> collection s' = collection s) \<and>
         (\<forall>ps ss os. api_products w = Inr ps \<longrightarrow> api_search w = Inr ss \<longrightarrow>
            api_offers w = Inr os \<longrightarrow>
            (\<exists>built. collection s' = collection s @ built \<and>
               (case res of
                  Inr u \<Rightarrow>
                    assembles w ps os (filter is_ready_mix_search_item ss) (feeds_fetched s)
                      built s'
                | Inl e \<Rightarrow>
                    (\<exists>pre bad post sm.
                       filter is_ready_mix_search_item ss = pre @ bad # post \<and>
                       assembles w ps os pre (feeds_fetched s) built sm \<and>
                       raises_at w ps os bad sm e s'))))"
proof -
  have p: "\<forall>e. api_products w = Inl e \<longrightarrow> res = Inl e \<and> collection s' = collection s"
    using assms by (auto simp: get_all_ready_mixes_def Let_def http_get_frame)
  have q: "\<forall>ps e. api_products w = Inr ps \<longrightarrow> api_search w = Inl e \<longrightarrow>
            res = Inl e \<and> collection s' = collection s"
    using assms by (auto simp: get_all_ready_mixes_def Let_def http_get_frame)
  have r: "\<forall>ps ss e. api_products w = Inr ps \<longrightarrow> api_search w = Inr ss \<longrightarrow>
            api_offers w = Inl e \<longrightarrow> res = Inl e \<and> collection s' = collection s"
    using assms by (auto simp: get_all_ready_mixes_def Let_def http_get_frame)
  have t: "\<forall>ps ss os. api_products w = Inr ps \<longrightarrow> api_search w = Inr ss \<longrightarrow>
            api_offers w = Inr os \<longrightarrow>
            (\<exists>built. collection s' = collection s @ built \<and>
               (case res of
                  Inr u \<Rightarrow>
                    assembles w ps os (filter is_ready_mix_search_item ss) (feeds_fetched s)
                      built s'
                | Inl e \<Rightarrow>
                    (\<exists>pre bad post sm.
                       filter is_ready_mix_search_item ss = pre @ bad # post \<and>
                       assembles w ps os pre (feeds_fetched s) built sm \<and>
                       raises_at w ps os bad sm e s')))"
  proof (intro allI impI)
    fix ps ss os
    assume f: "api_products w = Inr ps" "api_search w = Inr ss" "api_offers w = Inr os"
    have "append_ready_mixes w ps os (filter is_ready_mix_search_item ss) (feeds_fetched s)
            = (res, s')"
      using assms get_all_ready_mixes_feeds [OF f] by simp
    from append_ready_mixes_assembles [OF this]
    show "\<exists>built. collection s' = collection s @ built \<and>
               (case res of
                  Inr u \<Rightarrow>
                    assembles w ps os (filter is_ready_mix_search_item ss) (feeds_fetched s)
                      built s'
                | Inl e \<Rightarrow>
                    (\<exists>pre bad post sm.
                       filter is_ready_mix_search_item ss = pre @ bad # post \<and>
                       assembles w ps os pre (feeds_fetched s) built sm \<and>
                       raises_at w ps os bad sm e s'))"
      by (simp add: feeds_fetched_frame)
  qed
  show ?thesis by (intro conjI p q r t)
qed

theorem get_all_ready_mixes_outcome_witness:
  "fst (get_all_ready_mixes missing_product_site initial_state) = Inl StopIteration \<and>
   map rm_name (collection (snd (get_all_ready_mixes missing_product_site initial_state)))
     = [''Produkt''] \<and>
   (\<exists>built. collection (snd (get_all_ready_mixes missing_product_site initial_state))
              = collection initial_state @ built \<and>
      (\<exists>pre bad post sm. [example_search 1, example_search 2] = pre @ bad # post \<and>
         assembles missing_product_site [three_ingredient_product] three_offer_dicts pre
           (feeds_fetched initial_state) built sm \<and>
         raises_at missing_product_site [three_ingredient_product] three_offer_dicts bad sm
           StopIteration (snd (get_all_ready_mixes missing_product_site initial_state)))) \<and>
   fst (get_all_ready_mixes one_product_site initial_state) = Inr () \<and>
   (\<exists>built. collection (snd (get_all_ready_mixes one_product_site initial_state))
              = collection initial_state @ built \<and>
      assembles one_product_site [three_ingredient_product] three_offer_dicts
        [example_search 1] (feeds_fetched initial_state) built
        (snd (get_all_ready_mixes one_product_site initial_state))) \<and>
   fst (get_all_ready_mixes offers_feed_down initial_state) = Inl RequestError \<and>
   collection (snd (get_all_ready_mixes offers_feed_down initial_state))
     = collection initial_state"
proof -
  let ?X = "get_all_ready_mixes missing_product_site initial_state"
  let ?Y = "get_all_ready_mixes one_product_site initial_state"
  let ?Z = "get_all_ready_mixes offers_feed_down initial_state"
  have p1: "is_ready_mix_search_item (example_search 1)" by code_simp
  have p2: "is_ready_mix_search_item (example_search 2)" by code_simp
  have fx: "fst ?X = Inl StopIteration" by code_simp
  then have x: "?X = (Inl StopIteration, snd ?X)" by (metis prod.collapse)
  have nx: "map rm_name (collection (snd ?X)) = [''Produkt'']" by code_simp
  have wx: "api_products missing_product_site = Inr [three_ingredient_product]"
    "api_search missing_product_site = Inr [example_search 1, example_search 2]"
    "api_offers missing_product_site = Inr three_offer_dicts"
    by (simp_all add: missing_product_site_def example_world_def)
  have ox: "\<exists>built. collection (snd ?X) = collection initial_state @ built \<and>
      (\<exists>pre bad post sm. [example_search 1, example_search 2] = pre @ bad # post \<and>
         assembles missing_product_site [three_ingredient_product] three_offer_dicts pre
           (feeds_fetched initial_state) built sm \<and>
         raises_at missing_product_site [three_ingredient_product] three_offer_dicts bad sm
           StopIteration (snd ?X))"
    using get_all_ready_mixes_outcome [OF x] wx by (simp add: p1 p2)
  have fy: "fst ?Y = Inr ()" by code_simp
  then have y: "?Y = (Inr (), snd ?Y)" by (metis prod.collapse)
  have wy: "api_products one_product_site = Inr [three_ingredient_product]"
    "api_search one_product_site = Inr [example_search 1]"
    "api_offers one_product_site = Inr three_offer_dicts"
    by (simp_all add: one_product_site_def example_world_def)
  have oy: "\<exists>built. collection (snd ?Y) = collection initial_state @ built \<and>
      assembles one_product_site [three_ingredient_product] three_offer_dicts
        [example_search 1] (feeds_fetched initial_state) built (snd ?Y)"
    using get_all_ready_mixes_outcome [OF y] wy by (simp add: p1)
  have fz: "fst ?Z = Inl RequestError" by code_simp
  then have z: "?Z = (Inl RequestError, snd ?Z)" by (metis prod.collapse)
  have wz: "api_products offers_feed_down = Inr [three_ingredient_product]"
    "api_search offers_feed_down = Inr [example_search 1]"
    "api_offers offers_feed_down = Inl RequestError"
    by (simp_all add: offers_feed_down_def one_product_site_def example_world_def)
  have oz: "collection (snd ?Z) = collection initial_state"
    using get_all_ready_mixes_outcome [OF z] wz by simp
  show ?thesis by (intro conjI fx nx ox fy oy fz oz)
qed

section \<open>The value of the constructor\<close>

text \<open>
  Claim C10: a constructor call that returns gives the address bound to the class
  attribute \<^verbatim>\<open>all_elements\<close>; the attribute stays bound to that address and no list
  at another address is made or changed. After an append through the returned
  reference, the next call returns the same address, and the list read there has the
  appended element.
\<close>

theorem ReadyMixList_new_aliased:
  assumes "ReadyMixList_new w s = (Inr a, s1)"
  shows "a = all_elements s \<and> all_elements s1 = all_elements s \<and>
         (\<forall>c. c \<noteq> all_elements s \<longrightarrow> heap s1 c = heap s c) \<and>
         ReadyMixList_new w (list_append a x s1) = (Inr a, list_append a x s1) \<and>
         heap (list_append a x s1) a = heap s1 a @ [x]"
proof -
  have a: "a = all_elements s" using assms by (rule ReadyMixList_new_result)
  note f = ReadyMixList_new_frame [OF assms]
  have a1: "a = all_elements s1" using a f by simp
  have "collection (list_append a x s1) \<noteq> []"
    by (simp add: a1 collection_list_append)
  then have "ReadyMixList_new w (list_append a x s1)
               = (Inr (all_elements (list_append a x s1)), list_append a x s1)"
    by (rule ReadyMixList_new_nonempty)
  then have second: "ReadyMixList_new w (list_append a x s1) = (Inr a, list_append a x s1)"
    by (simp add: a1 list_append_def)
  have "heap (list_append a x s1) a = heap s1 a @ [x]" by (simp add: list_append_def)
  with a f second show ?thesis by simp
qed

theorem ReadyMixList_new_aliased_witness:
  "fst (ReadyMixList_new scraped_only initial_state) = Inr (all_elements initial_state) \<and>
   fst (ReadyMixList_new scraped_only
          (list_append 0 (projr (fst (ReadyMix_init scraped_only three_ingredient_product
                                        (example_search 1) [] initial_state)))
             (snd (ReadyMixList_new scraped_only initial_state)))) = Inr 0 \<and>
   map rm_name (heap
      (list_append 0 (projr (fst (ReadyMix_init scraped_only three_ingredient_product
                                        (example_search 1) [] initial_state)))
             (snd (ReadyMixList_new scraped_only initial_state))) 0) = [''Produkt'']"
proof -
  let ?A = "ReadyMixList_new scraped_only initial_state"
  let ?x = "projr (fst (ReadyMix_init scraped_only three_ingredient_product
                                        (example_search 1) [] initial_state))"
  have fa: "fst ?A = Inr 0" by code_simp
  then have a: "?A = (Inr 0, snd ?A)" by (metis prod.collapse)
  have e: "heap (snd ?A) 0 = []" by code_simp
  have n: "rm_name ?x = ''Produkt''" by code_simp
  have z: "all_elements initial_state = 0" by (simp add: initial_state_def)
  from ReadyMixList_new_aliased [OF a, of ?x]
  have second: "ReadyMixList_new scraped_only (list_append 0 ?x (snd ?A))
                  = (Inr 0, list_append 0 ?x (snd ?A))"
    and h: "heap (list_append 0 ?x (snd ?A)) 0 = heap (snd ?A) 0 @ [?x]"
    by blast+
  have "fst (ReadyMixList_new scraped_only (list_append 0 ?x (snd ?A))) = Inr 0"
    by (simp only: second fst_conv)
  moreover have "map rm_name (heap (list_append 0 ?x (snd ?A)) 0) = [''Produkt'']"
    by (simp only: h e n append_Nil list.map)
  ultimately show ?thesis using fa z by simp
qed

end
